theory Spec2Isabelle
  imports Complex_Main "HOL-Library.Word" "HOL-Library.Sublist" "HOL-Library.Multiset"
begin

unbundle bit_operations_syntax

section \<open>The job launcher (DistributedRL/LaunchTrainingJob.ipynb)\<close>

subsection \<open>Python values and their text\<close>

text \<open>
  The notebook builds its command lines with \<^verbatim>\<open>str.format\<close>. A replacement field
  \<^verbatim>\<open>{k}\<close> inserts \<^verbatim>\<open>str\<close> of the argument: the decimal text of an \<open>int\<close>, the string
  itself for a \<open>str\<close>. A field \<^verbatim>\<open>{k:f}\<close> inserts a float in fixed notation with six
  digits after the point, correctly rounded (ties to even) from the float's exact value.
  A finite Python float is a dyadic rational, so a float is modelled by its exact value
  in \<^typ>\<open>rat\<close>; infinities, NaN and the negative zero (which prints with a minus
  sign) are outside the model.
\<close>

definition digit_char :: "nat \<Rightarrow> char" where
  "digit_char d = ''0123456789abcdef'' ! d"

function digits :: "int \<Rightarrow> string" where
  "digits n =
     (if n < 10 then [digit_char (nat n)]
      else digits (n div 10) @ [digit_char (nat (n mod 10))])"
  by pat_completeness auto
termination
  by (relation "measure nat") auto

declare digits.simps [simp del]

definition str_int :: "int \<Rightarrow> string" where
  "str_int i = (if i < 0 then ''-'' @ digits (- i) else digits i)"

definition round_half_even :: "rat \<Rightarrow> int" where
  "round_half_even q =
     (let f = \<lfloor>q\<rfloor>; r = q - of_int f
      in if r < 1 / 2 then f else if 1 / 2 < r then f + 1 else if even f then f else f + 1)"

definition zfill :: "nat \<Rightarrow> string \<Rightarrow> string" where
  "zfill w s = replicate (w - length s) (CHR ''0'') @ s"

definition format_f :: "rat \<Rightarrow> string" where
  "format_f x =
     (let m = round_half_even (\<bar>x\<bar> * 1000000)
      in (if x < 0 then ''-'' else '''') @
         digits (m div 1000000) @ ''.'' @ zfill 6 (digits (m mod 1000000)))"

text \<open>
  \<^verbatim>\<open>uuid.uuid4()\<close> is \<^verbatim>\<open>UUID(bytes=os.urandom(16), version=4)\<close>: sixteen random bytes read
  as a 128-bit integer, with the variant bits set to \<open>10\<close> and the version nibble to
  \<open>4\<close>. \<^verbatim>\<open>str\<close> of a UUID is its 32 hexadecimal digits grouped 8-4-4-4-12. The random
  bytes are a parameter of the model.
\<close>

definition uuid4 :: "128 word \<Rightarrow> 128 word" where
  "uuid4 r =
     (((r AND NOT (push_bit 48 0xc000)) OR push_bit 48 0x8000)
        AND NOT (push_bit 64 0xf000)) OR push_bit 76 4"

definition hex32 :: "128 word \<Rightarrow> string" where
  "hex32 w = map (\<lambda>i. digit_char (unat (drop_bit (4 * (31 - i)) w AND 0xF))) [0..<32]"

definition str_uuid :: "128 word \<Rightarrow> string" where
  "str_uuid u =
     (let h = hex32 u
      in take 8 h @ ''-'' @ take 4 (drop 8 h) @ ''-'' @ take 4 (drop 12 h) @ ''-'' @
         take 4 (drop 16 h) @ ''-'' @ drop 20 h)"

text \<open>Python's \<^verbatim>\<open>range(0, n, 1)\<close>: the integers from 0 up to \<open>n - 1\<close>, none when \<open>n \<le> 0\<close>.\<close>

definition range0 :: "int \<Rightarrow> int list" where
  "range0 n = [0..n - 1]"

subsection \<open>Notebook configuration and hyperparameters\<close>

text \<open>
  \<^verbatim>\<open>NOTEBOOK_CONFIG\<close> is read from \<^verbatim>\<open>notebook_config.json\<close>; the fields below are the
  entries the job and its tasks use. The hyperparameters are the notebook's global
  variables, with the types of the values the notebook assigns.
\<close>

record notebook_config =
  batch_pool_name :: string
  batch_pool_size :: int
  batch_job_user_name :: string

record hyperparameters =
  batch_update_frequency :: int
  max_epoch_runtime_sec :: int
  per_iter_epsilon_reduction :: rat
  min_epsilon :: rat
  batch_size :: int
  replay_memory_size :: int
  weights_path :: string
  train_conv_layers :: string

subsection \<open>The Azure Batch request objects\<close>

record user_identity =
  user_name :: string

record multi_instance_settings =
  number_of_instances :: int
  coordination_command_line :: string

record task_add_parameter =
  task_id :: string
  command_line :: string
  display_name :: string
  task_user_identity :: user_identity
  task_multi_instance_settings :: multi_instance_settings

record pool_information =
  pool_id :: string

record job_add_parameter =
  job_param_id :: string
  pool_info :: pool_information

text \<open>
  What the notebook sends to the Batch service: \<^verbatim>\<open>batch_client.job.add(job)\<close> and
  \<^verbatim>\<open>batch_client.task.add_collection(job_id, tasks)\<close>. The service's answers are not
  part of the model: both calls are taken to return.
\<close>

record submission =
  job_add :: job_add_parameter
  add_collection_job_id :: string
  add_collection_tasks :: "task_add_parameter list"

subsection \<open>Command lines\<close>

text \<open>
  Both command lines are raw string literals, so every backslash written in the
  notebook is a character of the string: \<^verbatim>\<open>C:\\prereq\<close> holds two backslashes and
  \<^verbatim>\<open>data_dir=Z:\\\\\<close> holds four. Each literal is cut here into the program it
  starts (up to the first \<^verbatim>\<open>key=value\<close> argument) and its arguments, one piece per
  argument, concatenated in the order of the source.
\<close>

definition bs2 :: string where
  "bs2 = [CHR 0x5C, CHR 0x5C]"

definition job_id :: "128 word \<Rightarrow> string" where
  "job_id r = ''distributed_rl_'' @ str_uuid (uuid4 r)"

definition trainer_program :: string where
  "trainer_program =
     ''call C:'' @ bs2 @ ''prereq'' @ bs2 @ ''mount.bat && C:'' @ bs2 @ ''ProgramData'' @ bs2 @
     ''Anaconda3'' @ bs2 @ ''Scripts'' @ bs2 @ ''activate.bat py36 && python -u Z:'' @ bs2 @
     ''scripts_downpour'' @ bs2 @ ''manage.py runserver 0.0.0.0:80''"

definition trainer_cmd_line :: "hyperparameters \<Rightarrow> string \<Rightarrow> string" where
  "trainer_cmd_line hp jid =
     trainer_program @
     '' data_dir=Z:'' @ bs2 @ bs2 @
     '' role=trainer'' @
     '' experiment_name='' @ jid @
     '' batch_update_frequency='' @ str_int (batch_update_frequency hp) @
     '' weights_path='' @ weights_path hp @
     '' train_conv_layers='' @ train_conv_layers hp"

definition agent_program :: string where
  "agent_program =
     ''call C:'' @ bs2 @ ''prereq'' @ bs2 @ ''mount.bat && C:'' @ bs2 @ ''ProgramData'' @ bs2 @
     ''Anaconda3'' @ bs2 @ ''Scripts'' @ bs2 @ ''activate.bat py36 && python -u Z:'' @ bs2 @
     ''scripts_downpour'' @ bs2 @ ''app'' @ bs2 @ ''distributed_agent.py''"

definition agent_cmd_line :: "hyperparameters \<Rightarrow> string \<Rightarrow> string" where
  "agent_cmd_line hp jid =
     agent_program @
     '' data_dir=Z:'' @
     '' role=agent'' @
     '' max_epoch_runtime_sec='' @ str_int (max_epoch_runtime_sec hp) @
     '' per_iter_epsilon_reduction='' @ format_f (per_iter_epsilon_reduction hp) @
     '' min_epsilon='' @ format_f (min_epsilon hp) @
     '' batch_size='' @ str_int (batch_size hp) @
     '' replay_memory_size='' @ str_int (replay_memory_size hp) @
     '' experiment_name='' @ jid @
     '' weights_path='' @ weights_path hp @
     '' train_conv_layers='' @ train_conv_layers hp"

subsection \<open>Job and tasks\<close>

definition trainer_task :: "notebook_config \<Rightarrow> hyperparameters \<Rightarrow> string \<Rightarrow> task_add_parameter" where
  "trainer_task cfg hp jid =
     \<lparr> task_id = ''TrainerTask'',
       command_line = trainer_cmd_line hp jid,
       display_name = ''Trainer'',
       task_user_identity = \<lparr> user_name = batch_job_user_name cfg \<rparr>,
       task_multi_instance_settings =
         \<lparr> number_of_instances = 1, coordination_command_line = ''cls'' \<rparr> \<rparr>"

definition agent_task :: "notebook_config \<Rightarrow> string \<Rightarrow> int \<Rightarrow> task_add_parameter" where
  "agent_task cfg cmd i =
     \<lparr> task_id = ''AgentTask_'' @ str_int i,
       command_line = cmd,
       display_name = ''Agent_'' @ str_int i,
       task_user_identity = \<lparr> user_name = batch_job_user_name cfg \<rparr>,
       task_multi_instance_settings =
         \<lparr> number_of_instances = 1, coordination_command_line = ''cls'' \<rparr> \<rparr>"

text \<open>
  The task list starts with the trainer task; the loop over
  \<^verbatim>\<open>range(0, NOTEBOOK_CONFIG['batch_pool_size'] - 1, 1)\<close> appends one agent task per
  index, each with the command line computed once before the loop.
\<close>

definition make_tasks :: "notebook_config \<Rightarrow> hyperparameters \<Rightarrow> string \<Rightarrow> task_add_parameter list" where
  "make_tasks cfg hp jid =
     (let tasks = [] @ [trainer_task cfg hp jid];
          cmd = agent_cmd_line hp jid
      in foldl (\<lambda>ts i. ts @ [agent_task cfg cmd i]) tasks (range0 (batch_pool_size cfg - 1)))"

definition launch :: "notebook_config \<Rightarrow> hyperparameters \<Rightarrow> 128 word \<Rightarrow> submission" where
  "launch cfg hp r =
     (let jid = job_id r;
          job = \<lparr> job_param_id = jid, pool_info = \<lparr> pool_id = batch_pool_name cfg \<rparr> \<rparr>;
          tasks = make_tasks cfg hp jid
      in \<lparr> job_add = job, add_collection_job_id = jid, add_collection_tasks = tasks \<rparr>)"

text \<open>
  The values the notebook assigns. \<^verbatim>\<open>0.003\<close> and \<^verbatim>\<open>0.1\<close> are the nearest doubles.
  The weights path is an ordinary literal, so each escaped backslash is one character.
\<close>

definition notebook_hyperparameters :: hyperparameters where
  "notebook_hyperparameters =
     \<lparr> batch_update_frequency = 300,
       max_epoch_runtime_sec = 30,
       per_iter_epsilon_reduction = 3458764513820541 / 2 ^ 60,
       min_epsilon = 3602879701896397 / 2 ^ 55,
       batch_size = 32,
       replay_memory_size = 2000,
       weights_path = ''Z:'' @ [CHR 0x5C] @ ''data'' @ [CHR 0x5C] @ ''pretrain_model_weights.h5'',
       train_conv_layers = ''false'' \<rparr>"

text \<open>
  \<^verbatim>\<open>notebook_config.json\<close> is written by an earlier notebook and is not among the
  sources; an example of it, with a pool of three machines.
\<close>

definition example_config :: notebook_config where
  "example_config =
     \<lparr> batch_pool_name = ''rl_pool'', batch_pool_size = 3, batch_job_user_name = ''batch_user'' \<rparr>"

subsection \<open>Reading a command line\<close>

text \<open>
  The role a node is started with is the text after the first \<^verbatim>\<open> role=\<close> of its
  command line, up to the next space.
\<close>

fun find_after :: "string \<Rightarrow> string \<Rightarrow> string option" where
  "find_after key [] = (if key = [] then Some [] else None)"
| "find_after key (c # cs) =
     (if prefix key (c # cs) then Some (drop (length key) (c # cs)) else find_after key cs)"

definition role_of :: "string \<Rightarrow> string option" where
  "role_of cmd = map_option (takeWhile (\<lambda>c. c \<noteq> CHR '' '')) (find_after '' role='' cmd)"

text \<open>
  The text of a version-4 UUID: 36 characters, hyphens at positions 8, 13, 18 and 23,
  lower-case hexadecimal digits elsewhere, version digit \<open>4\<close> and a variant digit
  among \<open>8\<close>, \<open>9\<close>, \<open>a\<close>, \<open>b\<close>.
\<close>

definition is_uuid4_text :: "string \<Rightarrow> bool" where
  "is_uuid4_text s \<longleftrightarrow>
     length s = 36 \<and>
     [s ! 8, s ! 13, s ! 18, s ! 23] = ''----'' \<and>
     set (take 8 s @ take 4 (drop 9 s) @ take 4 (drop 14 s) @ take 4 (drop 19 s) @ drop 24 s)
       \<subseteq> set ''0123456789abcdef'' \<and>
     s ! 14 = CHR ''4'' \<and>
     s ! 19 \<in> set ''89ab''"

section \<open>The coordination core\<close>

text \<open>
  The notebook only launches the job: the parameter server, the agents, their replay
  memory and the checkpoint manager run from scripts that are not among the sources.
  Their definitions below follow the contracts of the specification.
\<close>

subsection \<open>Parameter Server Core and Checkpoint Manager\<close>

text \<open>
  Modelled from the spec: the ModelSnapshot entity (the parameter server's code is
  missing). \<open>version\<close> is the monotonic integer, \<open>weights\<close> the opaque blob; the
  creation time is left out.
\<close>

record 'w model_snapshot =
  version :: int
  weights :: 'w

text \<open>
  Modelled from the spec: the GradientUpdate entity (the agent's and the server's code
  are missing).
\<close>

record 'g gradient_update =
  baseVersion :: int
  gradientBlob :: 'g
  agentId :: string
  sampleCount :: nat

text \<open>
  Modelled from the spec: the server's configuration (the server's code is missing):
  the checkpoint frequency and the two arguments \<open>persist\<close> takes besides the snapshot.
\<close>

record server_config =
  checkpointFrequency :: nat
  jobId :: string
  checkpointDir :: string

text \<open>
  Modelled from the spec: one invocation of the Checkpoint Manager's
  \<open>persist(snapshot, jobId, checkpointDir)\<close> (the manager's code is missing).
\<close>

record 'w persist_call =
  persisted_snapshot :: "'w model_snapshot"
  persisted_jobId :: string
  persisted_checkpointDir :: string

text \<open>
  Modelled from the spec: the state the Parameter Server Core owns (its code is
  missing): the current snapshot, the TrainerCounters, and the invocations of
  \<open>persist\<close> it has made so far, oldest first.
\<close>

record 'w server =
  snapshot :: "'w model_snapshot"
  updateCount :: nat
  updatesSinceCheckpoint :: nat
  persist_calls :: "'w persist_call list"

text \<open>
  Modelled from the spec: \<open>pull() -> (version, weights)\<close> returns the current snapshot
  and has no side effect (the server's code is missing).
\<close>

definition pull :: "'w server \<Rightarrow> int \<times> 'w" where
  "pull s = (version (snapshot s), weights (snapshot s))"

text \<open>
  Modelled from the spec: the hand-off to the Checkpoint Manager (its code is missing).
  The durable write itself is outside the model and taken to succeed.
\<close>

definition persist :: "server_config \<Rightarrow> 'w model_snapshot \<Rightarrow> 'w server \<Rightarrow> 'w server" where
  "persist cfg snap s =
     s\<lparr> persist_calls := persist_calls s @
          [\<lparr> persisted_snapshot = snap, persisted_jobId = jobId cfg,
             persisted_checkpointDir = checkpointDir cfg \<rparr>] \<rparr>"

text \<open>
  Modelled from the spec: \<open>push(baseVersion, gradient, agentId, sampleCount) -> newVersion\<close>
  (the server's code is missing). The gradient is applied to the current snapshot by
  the opaque function \<open>apply_gradient\<close>, whatever the base version; \<open>version\<close> and the
  counters are incremented; when \<open>updatesSinceCheckpoint\<close> equals the checkpoint
  frequency the post-update snapshot is persisted and the counter reset to 0. Pushes are
  serialized, so one push is one step.
\<close>

definition push ::
  "server_config \<Rightarrow> ('w \<Rightarrow> 'g \<Rightarrow> 'w) \<Rightarrow> 'g gradient_update \<Rightarrow> 'w server \<Rightarrow> int \<times> 'w server" where
  "push cfg apply_gradient g s =
     (let snap = \<lparr> version = version (snapshot s) + 1,
                   weights = apply_gradient (weights (snapshot s)) (gradientBlob g) \<rparr>;
          s1 = s\<lparr> snapshot := snap,
                 updateCount := updateCount s + 1,
                 updatesSinceCheckpoint := updatesSinceCheckpoint s + 1 \<rparr>;
          s2 = (if updatesSinceCheckpoint s1 = checkpointFrequency cfg
                then (persist cfg snap s1)\<lparr> updatesSinceCheckpoint := 0 \<rparr>
                else s1)
      in (version snap, s2))"

text \<open>
  Modelled from the spec: a sequence of push calls in the order the server applies them
  (the server's code is missing). \<open>pushes\<close> gives the server after the calls,
  \<open>push_results\<close> the versions the calls return, \<open>snapshots\<close> the snapshot the server
  holds before the first call and after each one.
\<close>

fun pushes ::
  "server_config \<Rightarrow> ('w \<Rightarrow> 'g \<Rightarrow> 'w) \<Rightarrow> 'g gradient_update list \<Rightarrow> 'w server \<Rightarrow> 'w server" where
  "pushes cfg ap [] s = s"
| "pushes cfg ap (g # gs) s = pushes cfg ap gs (snd (push cfg ap g s))"

fun push_results ::
  "server_config \<Rightarrow> ('w \<Rightarrow> 'g \<Rightarrow> 'w) \<Rightarrow> 'g gradient_update list \<Rightarrow> 'w server \<Rightarrow> int list" where
  "push_results cfg ap [] s = []"
| "push_results cfg ap (g # gs) s =
     fst (push cfg ap g s) # push_results cfg ap gs (snd (push cfg ap g s))"

fun snapshots ::
  "server_config \<Rightarrow> ('w \<Rightarrow> 'g \<Rightarrow> 'w) \<Rightarrow> 'g gradient_update list \<Rightarrow> 'w server \<Rightarrow>
   'w model_snapshot list" where
  "snapshots cfg ap [] s = [snapshot s]"
| "snapshots cfg ap (g # gs) s = snapshot s # snapshots cfg ap gs (snd (push cfg ap g s))"

text \<open>
  Modelled from the spec: a server that has applied no push since its last checkpoint
  (the server's code is missing).
\<close>

definition fresh_server :: "'w model_snapshot \<Rightarrow> 'w server" where
  "fresh_server snap =
     \<lparr> snapshot = snap, updateCount = 0, updatesSinceCheckpoint = 0, persist_calls = [] \<rparr>"

subsection \<open>Replay Memory\<close>

text \<open>
  Modelled from the spec: the error taxonomy of section 7 (the code that raises them is
  missing).
\<close>

datatype error = TransportError | InsufficientDataError | CheckpointIOError | ComputeError

text \<open>
  Modelled from the spec: the ReplayMemory entity (the agent's code is missing): the
  capacity and the transitions in insertion order, oldest first. The cursor of a ring
  buffer is a matter of representation and is left out.
\<close>

record 'a replay_memory =
  capacity :: nat
  transitions :: "'a list"

text \<open>
  Modelled from the spec: \<open>push(transition)\<close> of the Replay Memory (the agent's code is
  missing): appends; if the size already equals the capacity, the oldest transition is
  evicted first.
\<close>

definition memory_push :: "'a \<Rightarrow> 'a replay_memory \<Rightarrow> 'a replay_memory" where
  "memory_push t m =
     (if length (transitions m) = capacity m
      then m\<lparr> transitions := tl (transitions m) @ [t] \<rparr>
      else m\<lparr> transitions := transitions m @ [t] \<rparr>)"

text \<open>
  Modelled from the spec: pushing a sequence of transitions one after the other (the
  agent's code is missing).
\<close>

fun memory_pushes :: "'a list \<Rightarrow> 'a replay_memory \<Rightarrow> 'a replay_memory" where
  "memory_pushes [] m = m"
| "memory_pushes (t # ts) m = memory_pushes ts (memory_push t m)"

text \<open>
  Modelled from the spec: drawing \<open>n\<close> transitions without replacement (the agent's
  code is missing). The random source is a parameter: \<open>rnd k\<close> is the k-th random
  number, and each draw takes the transition at that number modulo the size of what is
  left, which is then removed from what is left. It is called with \<open>n\<close> at most the
  size of the pool.
\<close>

fun draw :: "nat \<Rightarrow> (nat \<Rightarrow> nat) \<Rightarrow> 'a list \<Rightarrow> 'a list" where
  "draw 0 rnd pool = []"
| "draw (Suc n) rnd pool =
     (let i = rnd 0 mod length pool
      in pool ! i # draw n (\<lambda>k. rnd (Suc k)) (take i pool @ drop (Suc i) pool))"

text \<open>
  Modelled from the spec: \<open>sample(n)\<close> of the Replay Memory (the agent's code is
  missing): fails with \<open>InsufficientDataError\<close> if the current size is less than \<open>n\<close>,
  otherwise returns \<open>n\<close> transitions drawn without replacement. The memory after the
  call is returned beside the sample.
\<close>

definition sample ::
  "nat \<Rightarrow> (nat \<Rightarrow> nat) \<Rightarrow> 'a replay_memory \<Rightarrow> error + ('a list \<times> 'a replay_memory)" where
  "sample n rnd m =
     (if length (transitions m) < n then Inl InsufficientDataError
      else Inr (draw n rnd (transitions m), m))"

subsection \<open>Agent Worker: epsilon annealing\<close>

text \<open>
  Modelled from the spec: step 4 of the agent's iteration (the agent's code is missing):
  decrement epsilon by \<open>perIterEpsilonReduction\<close>, floored at \<open>minEpsilon\<close>.
\<close>

definition anneal :: "real \<Rightarrow> real \<Rightarrow> real \<Rightarrow> real" where
  "anneal minEpsilon perIterEpsilonReduction epsilon =
     max minEpsilon (epsilon - perIterEpsilonReduction)"

text \<open>
  Modelled from the spec: the epsilon of an agent that starts at \<open>initialEpsilon\<close>,
  after \<open>i\<close> iterations (the agent's code is missing).
\<close>

fun epsilon_after :: "real \<Rightarrow> real \<Rightarrow> real \<Rightarrow> nat \<Rightarrow> real" where
  "epsilon_after initialEpsilon minEpsilon red 0 = initialEpsilon"
| "epsilon_after initialEpsilon minEpsilon red (Suc i) =
     anneal minEpsilon red (epsilon_after initialEpsilon minEpsilon red i)"

subsection \<open>Example data\<close>

text \<open>
  A server that checkpoints every second push, gradients that add 1 to an integer
  weight, and a server starting at version 0.
\<close>

definition example_server_config :: server_config where
  "example_server_config =
     \<lparr> checkpointFrequency = 2, jobId = ''distributed_rl_example'', checkpointDir = ''Z:/checkpoint'' \<rparr>"

definition example_gradient :: "int \<Rightarrow> int gradient_update" where
  "example_gradient b =
     \<lparr> baseVersion = b, gradientBlob = 1, agentId = ''agent'', sampleCount = 32 \<rparr>"

definition example_server :: "int server" where
  "example_server = fresh_server \<lparr> version = 0, weights = 0 \<rparr>"

definition add_gradient :: "int \<Rightarrow> int \<Rightarrow> int" where
  "add_gradient w g = w + g"

section \<open>Properties of the job launcher\<close>

subsection \<open>Shape of the task list\<close>

lemma foldl_snoc_map: "foldl (\<lambda>ts i. ts @ [f i]) ts xs = ts @ map f xs"
  by (induction xs arbitrary: ts) simp_all

lemma make_tasks_eq:
  "make_tasks cfg hp jid =
     trainer_task cfg hp jid #
     map (agent_task cfg (agent_cmd_line hp jid)) (range0 (batch_pool_size cfg - 1))"
  by (simp add: make_tasks_def Let_def foldl_snoc_map)

lemma tasks_launch:
  "add_collection_tasks (launch cfg hp r) =
     trainer_task cfg hp (job_id r) #
     map (agent_task cfg (agent_cmd_line hp (job_id r))) (range0 (batch_pool_size cfg - 1))"
  by (simp add: launch_def Let_def make_tasks_eq)

lemma length_range0: "length (range0 n) = nat n"
  by (simp add: range0_def)

lemma command_line_trainer_task: "command_line (trainer_task cfg hp jid) = trainer_cmd_line hp jid"
  by (simp add: trainer_task_def)

lemma command_line_agent_task: "command_line (agent_task cfg cmd i) = cmd"
  by (simp add: agent_task_def)

lemma task_cases:
  assumes "t \<in> set (add_collection_tasks (launch cfg hp r))"
  obtains (trainer) "t = trainer_task cfg hp (job_id r)"
  | (agent) i where "t = agent_task cfg (agent_cmd_line hp (job_id r)) i"
  using assms by (auto simp: tasks_launch)

subsection \<open>What each command line holds\<close>

lemma role_of_trainer: "role_of (trainer_cmd_line hp jid) = Some ''trainer''"
  by (simp add: role_of_def trainer_cmd_line_def trainer_program_def bs2_def)

lemma role_of_agent: "role_of (agent_cmd_line hp jid) = Some ''agent''"
  by (simp add: role_of_def agent_cmd_line_def agent_program_def bs2_def)

lemma sublist_skip: "sublist x ys \<Longrightarrow> sublist x (p @ ys)"
  by (metis sublist_append)

lemma sublist_here3: "sublist (a @ b @ c) (a @ b @ c @ s)"
  by (metis append.assoc sublist_append_rightI)

lemma sublist_here2: "sublist (k @ v) (k @ v @ s)"
  by (metis append.assoc sublist_append_rightI)

lemma sublist_end2: "sublist (k @ v) (k @ v)"
  by simp

lemma sublist_here1: "sublist k (k @ s)"
  by simp

lemmas sublist_pieces = sublist_here3 sublist_here2 sublist_end2 sublist_here1

lemma trainer_args:
  "sublist ('' data_dir=Z:'' @ bs2 @ bs2) (trainer_cmd_line hp jid)"
  "sublist '' role=trainer'' (trainer_cmd_line hp jid)"
  "sublist ('' experiment_name='' @ jid) (trainer_cmd_line hp jid)"
  "sublist ('' batch_update_frequency='' @ str_int (batch_update_frequency hp))
     (trainer_cmd_line hp jid)"
  "sublist ('' weights_path='' @ weights_path hp) (trainer_cmd_line hp jid)"
  "sublist ('' train_conv_layers='' @ train_conv_layers hp) (trainer_cmd_line hp jid)"
  unfolding trainer_cmd_line_def
  by (rule sublist_pieces | rule sublist_skip)+

lemma agent_args:
  "sublist '' data_dir=Z:'' (agent_cmd_line hp jid)"
  "sublist '' role=agent'' (agent_cmd_line hp jid)"
  "sublist ('' max_epoch_runtime_sec='' @ str_int (max_epoch_runtime_sec hp))
     (agent_cmd_line hp jid)"
  "sublist ('' per_iter_epsilon_reduction='' @ format_f (per_iter_epsilon_reduction hp))
     (agent_cmd_line hp jid)"
  "sublist ('' min_epsilon='' @ format_f (min_epsilon hp)) (agent_cmd_line hp jid)"
  "sublist ('' batch_size='' @ str_int (batch_size hp)) (agent_cmd_line hp jid)"
  "sublist ('' replay_memory_size='' @ str_int (replay_memory_size hp)) (agent_cmd_line hp jid)"
  "sublist ('' experiment_name='' @ jid) (agent_cmd_line hp jid)"
  "sublist ('' weights_path='' @ weights_path hp) (agent_cmd_line hp jid)"
  "sublist ('' train_conv_layers='' @ train_conv_layers hp) (agent_cmd_line hp jid)"
  unfolding agent_cmd_line_def
  by (rule sublist_pieces | rule sublist_skip)+



lemma example_tasks:
  "add_collection_tasks (launch example_config notebook_hyperparameters 0) =
     [trainer_task example_config notebook_hyperparameters (job_id 0),
      agent_task example_config (agent_cmd_line notebook_hyperparameters (job_id 0)) 0,
      agent_task example_config (agent_cmd_line notebook_hyperparameters (job_id 0)) 1]"
  by (simp add: tasks_launch example_config_def range0_def upto.simps)

subsection \<open>The job identifier\<close>

lemma nibble_mask: "(0xF :: 128 word) = mask 4"
  by (simp add: mask_eq_exp_minus_1)
lemma version_field_mask: "(push_bit 64 0xf000 :: 128 word) = push_bit 76 (mask 4)"
  by (simp add: mask_eq_exp_minus_1 push_bit_eq_mult)
lemma variant_field_mask: "(push_bit 48 0xc000 :: 128 word) = push_bit 62 (mask 2)"
  by (simp add: mask_eq_exp_minus_1 push_bit_eq_mult)
lemma variant_field_value: "(push_bit 48 0x8000 :: 128 word) = push_bit 63 1"
  by (simp add: push_bit_eq_mult)
lemma version_field_value: "(push_bit 76 4 :: 128 word) = push_bit 78 1"
  by (simp add: push_bit_eq_mult)

lemma uuid4_alt:
  "uuid4 r = (((r AND NOT (push_bit 62 (mask 2))) OR push_bit 63 1)
        AND NOT (push_bit 76 (mask 4))) OR push_bit 78 1"
  unfolding uuid4_def version_field_mask variant_field_mask variant_field_value version_field_value ..

lemma bit_two_pow: "bit (push_bit k (1 :: 128 word)) n \<longleftrightarrow> n = k \<and> k < 128"
  by (auto simp add: bit_simps)

lemma version_nibble: "drop_bit 76 (uuid4 r) AND mask 4 = push_bit 2 1"
  unfolding uuid4_alt
  apply (rule bit_eqI)
  apply (simp only: bit_simps o_apply bit_two_pow)
  apply auto
  done

lemma variant_bits: "drop_bit 62 (uuid4 r) AND mask 2 = push_bit 1 1"
  unfolding uuid4_alt
  apply (rule bit_eqI)
  apply (simp only: bit_simps o_apply bit_two_pow)
  apply auto
  done

lemma variant_bits2: "drop_bit 2 (drop_bit 60 (uuid4 r) AND mask 4) = push_bit 1 1"
  unfolding uuid4_alt
  apply (rule bit_eqI)
  apply (simp only: bit_simps o_apply bit_two_pow)
  apply auto
  done

lemma unat_nibble: "unat ((w :: 128 word) AND mask 4) < 16"
proof -
  have "w AND mask 4 = take_bit 4 w"
    by (simp only: take_bit_eq_mask)
  then have "unat (w AND mask 4) = take_bit 4 (unat w)"
    by (simp only: unsigned_take_bit_eq)
  also have "\<dots> = unat w mod 2 ^ 4"
    by (rule take_bit_eq_mod)
  finally show ?thesis by simp
qed

lemma digit_char_hex: "n < 16 \<Longrightarrow> digit_char n \<in> set ''0123456789abcdef''"
  unfolding digit_char_def by (rule nth_mem) simp

lemma length_hex32: "length (hex32 w) = 32"
  by (simp add: hex32_def)

lemma nth_hex32:
  "i < 32 \<Longrightarrow> hex32 w ! i = digit_char (unat (drop_bit (4 * (31 - i)) w AND mask 4))"
  by (simp add: hex32_def nibble_mask del: upt_Suc)

lemma set_hex32: "set (hex32 w) \<subseteq> set ''0123456789abcdef''"
proof
  fix c
  assume "c \<in> set (hex32 w)"
  then obtain i where "i < 32" and "c = hex32 w ! i"
    by (metis in_set_conv_nth length_hex32)
  then show "c \<in> set ''0123456789abcdef''"
    by (simp only: nth_hex32 digit_char_hex [OF unat_nibble])
qed

lemma version_char: "hex32 (uuid4 r) ! 12 = CHR ''4''"
proof -
  have "unat (drop_bit 76 (uuid4 r) AND mask 4) = 4"
    by (simp only: version_nibble) simp
  then show ?thesis
    by (simp add: nth_hex32 digit_char_def)
qed

lemma variant_char: "hex32 (uuid4 r) ! 16 \<in> set ''89ab''"
proof -
  let ?x = "drop_bit 60 (uuid4 r) AND mask 4"
  have "unat (drop_bit 2 ?x) = 2"
    by (simp only: variant_bits2) simp
  moreover have "unat (drop_bit 2 ?x) = drop_bit 2 (unat ?x)"
    by (rule unat_drop_bit_eq)
  moreover have "drop_bit 2 (unat ?x) = unat ?x div 2 ^ 2"
    by (rule drop_bit_eq_div)
  ultimately have "unat ?x div 4 = 2"
    by simp
  moreover have "unat ?x < 16"
    by (rule unat_nibble)
  ultimately have "unat ?x = 8 \<or> unat ?x = 9 \<or> unat ?x = 10 \<or> unat ?x = 11"
    by arith
  then have "digit_char (unat ?x) \<in> set ''89ab''"
    by (auto simp: digit_char_def)
  then show ?thesis
    by (simp add: nth_hex32)
qed

lemma uuid4_text: "is_uuid4_text (str_uuid (uuid4 r))"
proof -
  let ?h = "hex32 (uuid4 r)"
  have len: "length ?h = 32" by (rule length_hex32)
  have hex: "set ?h \<subseteq> set ''0123456789abcdef''" by (rule set_hex32)
  have parts: "set (take n (drop k ?h)) \<subseteq> set ''0123456789abcdef''"
    "set (drop k ?h) \<subseteq> set ''0123456789abcdef''" for n k
    using hex by (meson set_take_subset set_drop_subset subset_trans)+
  have take8: "set (take 8 ?h) \<subseteq> set ''0123456789abcdef''"
    using hex by (meson set_take_subset subset_trans)
  show ?thesis
    unfolding is_uuid4_text_def str_uuid_def Let_def
    using version_char [of r] variant_char [of r] parts take8
    by (simp add: len nth_append)
qed

lemma digit_char_inj:
  assumes "a < 16" and "b < 16" and "digit_char a = digit_char b"
  shows "a = b"
proof -
  have d: "distinct ''0123456789abcdef''" by simp
  have l: "length ''0123456789abcdef'' = 16" by simp
  from assms(3) have "''0123456789abcdef'' ! a = ''0123456789abcdef'' ! b"
    by (simp only: digit_char_def)
  with assms(1,2) show ?thesis
    by (simp only: nth_eq_iff_index_eq [OF d] l)
qed

lemma bit_nibble:
  "bit (drop_bit k (w :: 128 word) AND mask 4) b \<longleftrightarrow> bit w (k + b) \<and> b < 4"
  by (auto simp add: bit_simps)

lemma hex32_inj:
  assumes "hex32 u = hex32 v"
  shows "u = v"
proof (rule bit_eqI)
  fix n
  assume "possible_bit TYPE(128 word) n"
  then have n: "n < 128" by simp
  let ?i = "31 - n div 4"
  let ?k = "4 * (31 - ?i)"
  from n have i: "?i < 32" and k: "?k + n mod 4 = n" by auto
  let ?x = "drop_bit ?k u AND mask 4" and ?y = "drop_bit ?k v AND mask 4"
  from assms have "hex32 u ! ?i = hex32 v ! ?i" by simp
  then have "digit_char (unat ?x) = digit_char (unat ?y)"
    by (simp only: nth_hex32 [OF i])
  then have "unat ?x = unat ?y"
    by (rule digit_char_inj [OF unat_nibble unat_nibble])
  then have "?x = ?y" by (simp only: word_unat_eq_iff)
  then have "bit ?x (n mod 4) = bit ?y (n mod 4)" by simp
  then have "bit u (?k + n mod 4) = bit v (?k + n mod 4)"
    by (simp only: bit_nibble) simp
  then show "bit u n = bit v n"
    by (simp only: k)
qed

lemma grouped_segments:
  assumes "length A = 8" and "length B = 4" and "length C = 4" and "length D = 4"
  shows "take 8 (A @ x # B @ y # C @ z # D @ w # E) = A"
    and "take 4 (drop 9 (A @ x # B @ y # C @ z # D @ w # E)) = B"
    and "take 4 (drop 14 (A @ x # B @ y # C @ z # D @ w # E)) = C"
    and "take 4 (drop 19 (A @ x # B @ y # C @ z # D @ w # E)) = D"
    and "drop 24 (A @ x # B @ y # C @ z # D @ w # E) = E"
  using assms by simp_all

lemma take_then_take: "take a xs @ take b (drop a xs) = take (a + b) xs"
  by (simp add: take_add)

lemma five_groups:
  "take 8 h @ take 4 (drop 8 h) @ take 4 (drop 12 h) @ take 4 (drop 16 h) @ drop 20 h = h"
proof -
  have "take 8 h @ take 4 (drop 8 h) = take 12 h"
    using take_then_take [of 8 h 4] by simp
  moreover have "take 12 h @ take 4 (drop 12 h) = take 16 h"
    using take_then_take [of 12 h 4] by simp
  moreover have "take 16 h @ take 4 (drop 16 h) = take 20 h"
    using take_then_take [of 16 h 4] by simp
  moreover have "take 20 h @ drop 20 h = h"
    by (rule append_take_drop_id)
  ultimately show ?thesis
    by (metis append.assoc)
qed

lemma hex32_of_str_uuid:
  "hex32 u = take 8 (str_uuid u) @ take 4 (drop 9 (str_uuid u)) @
     take 4 (drop 14 (str_uuid u)) @ take 4 (drop 19 (str_uuid u)) @ drop 24 (str_uuid u)"
proof -
  let ?h = "hex32 u"
  have s: "str_uuid u = take 8 ?h @ CHR ''-'' # take 4 (drop 8 ?h) @ CHR ''-'' #
      take 4 (drop 12 ?h) @ CHR ''-'' # take 4 (drop 16 ?h) @ CHR ''-'' # drop 20 ?h"
    by (simp add: str_uuid_def Let_def)
  have l: "length (take 8 ?h) = 8" "length (take 4 (drop 8 ?h)) = 4"
    "length (take 4 (drop 12 ?h)) = 4" "length (take 4 (drop 16 ?h)) = 4"
    by (simp_all add: length_hex32)
  show ?thesis
    by (simp only: s grouped_segments [OF l] five_groups)
qed

lemma str_uuid_inj: "str_uuid u = str_uuid v \<Longrightarrow> u = v"
  by (rule hex32_inj) (simp only: hex32_of_str_uuid)

lemma bit_uuid4:
  "bit (uuid4 r) n \<longleftrightarrow>
     n < 128 \<and> (n = 63 \<or> n = 78 \<or> (n \<notin> {62, 63, 76, 77, 78, 79} \<and> bit r n))"
  unfolding uuid4_alt
  apply (simp only: bit_simps o_apply bit_two_pow)
  apply (auto dest: bit_imp_le_length)
  done

lemma uuid4_eq_iff:
  "uuid4 r = uuid4 r' \<longleftrightarrow> (\<forall>n. n \<notin> {62, 63, 76, 77, 78, 79} \<longrightarrow> bit r n = bit r' n)"
proof
  assume eq: "uuid4 r = uuid4 r'"
  show "\<forall>n. n \<notin> {62, 63, 76, 77, 78, 79} \<longrightarrow> bit r n = bit r' n"
  proof (intro allI impI)
    fix n :: nat
    assume out: "n \<notin> {62, 63, 76, 77, 78, 79}"
    from eq have "bit (uuid4 r) n = bit (uuid4 r') n" by simp
    with out show "bit r n = bit r' n"
      by (auto simp: bit_uuid4 dest: bit_imp_le_length)
  qed
next
  assume "\<forall>n. n \<notin> {62, 63, 76, 77, 78, 79} \<longrightarrow> bit r n = bit r' n"
  then show "uuid4 r = uuid4 r'"
    by (intro bit_eqI) (auto simp: bit_uuid4)
qed

lemma job_id_eq_iff:
  "job_id r = job_id r' \<longleftrightarrow> (\<forall>n. n \<notin> {62, 63, 76, 77, 78, 79} \<longrightarrow> bit r n = bit r' n)"
proof -
  have "job_id r = job_id r' \<longleftrightarrow> uuid4 r = uuid4 r'"
    by (auto simp: job_id_def dest: str_uuid_inj)
  then show ?thesis by (simp only: uuid4_eq_iff)
qed

lemma length_job_id: "length (job_id r) = 51"
  by (simp add: job_id_def str_uuid_def Let_def length_hex32)

lemma job_id_not_uuid4_text: "\<not> is_uuid4_text (job_id r)"
  by (simp add: is_uuid4_text_def length_job_id)

lemma job_param_id_launch: "job_param_id (job_add (launch cfg hp r)) = job_id r"
  by (simp add: launch_def Let_def)

lemma add_collection_job_id_launch: "add_collection_job_id (launch cfg hp r) = job_id r"
  by (simp add: launch_def Let_def)

lemma experiment_name_arg_trainer:
  "sublist ('' experiment_name='' @ jid @ '' '') (trainer_cmd_line hp jid)"
  unfolding sublist_def trainer_cmd_line_def
  by (rule exI [of _ "trainer_program @ '' data_dir=Z:'' @ bs2 @ bs2 @ '' role=trainer''"],
      rule exI [of _ "''batch_update_frequency='' @ str_int (batch_update_frequency hp) @
        '' weights_path='' @ weights_path hp @ '' train_conv_layers='' @ train_conv_layers hp"])
    simp

lemma experiment_name_arg_agent:
  "sublist ('' experiment_name='' @ jid @ '' '') (agent_cmd_line hp jid)"
  unfolding sublist_def agent_cmd_line_def
  by (rule exI [of _ "agent_program @ '' data_dir=Z:'' @ '' role=agent'' @
        '' max_epoch_runtime_sec='' @ str_int (max_epoch_runtime_sec hp) @
        '' per_iter_epsilon_reduction='' @ format_f (per_iter_epsilon_reduction hp) @
        '' min_epsilon='' @ format_f (min_epsilon hp) @
        '' batch_size='' @ str_int (batch_size hp) @
        '' replay_memory_size='' @ str_int (replay_memory_size hp)"],
      rule exI [of _ "''weights_path='' @ weights_path hp @
        '' train_conv_layers='' @ train_conv_layers hp"])
    simp

subsection \<open>Claims about the launcher\<close>

text \<open>
  C1 (as stated): every node's command line holds every recognized key. The agent's
  command line of the notebook's own configuration holds no \<open>batch_update_frequency\<close>
  and the trainer's no \<open>max_epoch_runtime_sec\<close>.
\<close>

theorem all_keys_on_every_node_counterexample:
  "\<not> sublist ''batch_update_frequency''
       (command_line (add_collection_tasks (launch example_config notebook_hyperparameters 0) ! 1)) \<and>
   \<not> sublist ''max_epoch_runtime_sec''
       (command_line (add_collection_tasks (launch example_config notebook_hyperparameters 0) ! 0))"
  by code_simp

text \<open>
  C1 (amended): every task of a launched job is started either as the trainer, with
  data_dir, role, experiment_name (the job id), batch_update_frequency, weights_path
  and train_conv_layers on its command line, or as an agent, with data_dir, role,
  max_epoch_runtime_sec, per_iter_epsilon_reduction, min_epsilon, batch_size,
  replay_memory_size, experiment_name (the job id), weights_path and train_conv_layers
  on its command line.
\<close>

theorem node_settings_by_role:
  "\<forall>t \<in> set (add_collection_tasks (launch cfg hp r)).
     (role_of (command_line t) = Some ''trainer'' \<and>
      sublist ('' data_dir=Z:'' @ bs2 @ bs2) (command_line t) \<and>
      sublist '' role=trainer'' (command_line t) \<and>
      sublist ('' experiment_name='' @ job_id r) (command_line t) \<and>
      sublist ('' batch_update_frequency='' @ str_int (batch_update_frequency hp))
        (command_line t) \<and>
      sublist ('' weights_path='' @ weights_path hp) (command_line t) \<and>
      sublist ('' train_conv_layers='' @ train_conv_layers hp) (command_line t))
     \<or>
     (role_of (command_line t) = Some ''agent'' \<and>
      sublist '' data_dir=Z:'' (command_line t) \<and>
      sublist '' role=agent'' (command_line t) \<and>
      sublist ('' max_epoch_runtime_sec='' @ str_int (max_epoch_runtime_sec hp))
        (command_line t) \<and>
      sublist ('' per_iter_epsilon_reduction='' @ format_f (per_iter_epsilon_reduction hp))
        (command_line t) \<and>
      sublist ('' min_epsilon='' @ format_f (min_epsilon hp)) (command_line t) \<and>
      sublist ('' batch_size='' @ str_int (batch_size hp)) (command_line t) \<and>
      sublist ('' replay_memory_size='' @ str_int (replay_memory_size hp)) (command_line t) \<and>
      sublist ('' experiment_name='' @ job_id r) (command_line t) \<and>
      sublist ('' weights_path='' @ weights_path hp) (command_line t) \<and>
      sublist ('' train_conv_layers='' @ train_conv_layers hp) (command_line t))"
proof
  fix t
  assume "t \<in> set (add_collection_tasks (launch cfg hp r))"
  then show "(role_of (command_line t) = Some ''trainer'' \<and>
      sublist ('' data_dir=Z:'' @ bs2 @ bs2) (command_line t) \<and>
      sublist '' role=trainer'' (command_line t) \<and>
      sublist ('' experiment_name='' @ job_id r) (command_line t) \<and>
      sublist ('' batch_update_frequency='' @ str_int (batch_update_frequency hp))
        (command_line t) \<and>
      sublist ('' weights_path='' @ weights_path hp) (command_line t) \<and>
      sublist ('' train_conv_layers='' @ train_conv_layers hp) (command_line t))
     \<or>
     (role_of (command_line t) = Some ''agent'' \<and>
      sublist '' data_dir=Z:'' (command_line t) \<and>
      sublist '' role=agent'' (command_line t) \<and>
      sublist ('' max_epoch_runtime_sec='' @ str_int (max_epoch_runtime_sec hp))
        (command_line t) \<and>
      sublist ('' per_iter_epsilon_reduction='' @ format_f (per_iter_epsilon_reduction hp))
        (command_line t) \<and>
      sublist ('' min_epsilon='' @ format_f (min_epsilon hp)) (command_line t) \<and>
      sublist ('' batch_size='' @ str_int (batch_size hp)) (command_line t) \<and>
      sublist ('' replay_memory_size='' @ str_int (replay_memory_size hp)) (command_line t) \<and>
      sublist ('' experiment_name='' @ job_id r) (command_line t) \<and>
      sublist ('' weights_path='' @ weights_path hp) (command_line t) \<and>
      sublist ('' train_conv_layers='' @ train_conv_layers hp) (command_line t))"
  proof (cases rule: task_cases)
    case trainer
    then have "command_line t = trainer_cmd_line hp (job_id r)"
      by (simp add: command_line_trainer_task)
    then show ?thesis
      using role_of_trainer [of hp "job_id r"] trainer_args [where hp = hp and jid = "job_id r"] by simp
  next
    case (agent i)
    then have "command_line t = agent_cmd_line hp (job_id r)"
      by (simp add: command_line_agent_task)
    then show ?thesis
      using role_of_agent [of hp "job_id r"] agent_args [where hp = hp and jid = "job_id r"] by simp
  qed
qed

theorem node_settings_by_role_witness:
  "agent_task example_config (agent_cmd_line notebook_hyperparameters (job_id 0)) 0
     \<in> set (add_collection_tasks (launch example_config notebook_hyperparameters 0)) \<and>
   role_of (agent_cmd_line notebook_hyperparameters (job_id 0)) = Some ''agent'' \<and>
   sublist '' min_epsilon=0.100000'' (agent_cmd_line notebook_hyperparameters (job_id 0)) \<and>
   trainer_task example_config notebook_hyperparameters (job_id 0)
     \<in> set (add_collection_tasks (launch example_config notebook_hyperparameters 0)) \<and>
   sublist '' batch_update_frequency=300''
     (trainer_cmd_line notebook_hyperparameters (job_id 0))"
proof -
  let ?a = "agent_task example_config (agent_cmd_line notebook_hyperparameters (job_id 0)) 0"
  let ?t = "trainer_task example_config notebook_hyperparameters (job_id 0)"
  have fmt: "format_f (min_epsilon notebook_hyperparameters) = ''0.100000''"
    by code_simp
  have str: "str_int (batch_update_frequency notebook_hyperparameters) = ''300''"
    by code_simp
  have a: "?a \<in> set (add_collection_tasks (launch example_config notebook_hyperparameters 0))"
    and t: "?t \<in> set (add_collection_tasks (launch example_config notebook_hyperparameters 0))"
    by (simp_all add: example_tasks)
  have ra: "role_of (command_line ?a) \<noteq> Some ''trainer''"
    by (simp add: command_line_agent_task role_of_agent)
  have rt: "role_of (command_line ?t) \<noteq> Some ''agent''"
    by (simp add: command_line_trainer_task role_of_trainer)
  from bspec [OF node_settings_by_role a] ra
  have "role_of (command_line ?a) = Some ''agent'' \<and>
        sublist ('' min_epsilon='' @ format_f (min_epsilon notebook_hyperparameters))
          (command_line ?a)"
    by blast
  moreover from bspec [OF node_settings_by_role t] rt
  have "sublist ('' batch_update_frequency='' @
          str_int (batch_update_frequency notebook_hyperparameters)) (command_line ?t)"
    by blast
  ultimately show ?thesis
    using a t by (simp add: fmt str command_line_agent_task command_line_trainer_task)
qed

text \<open>
  C2: the task list of every launched job has exactly one task started with
  role=trainer and N tasks started with role=agent, and no other task; N is
  \<open>batch_pool_size - 1\<close> whenever \<open>batch_pool_size \<ge> 1\<close> (and 0 below that).
\<close>

theorem one_trainer_and_pool_size_minus_one_agents:
  "length (filter (\<lambda>t. role_of (command_line t) = Some ''trainer'')
             (add_collection_tasks (launch cfg hp r))) = 1 \<and>
   length (filter (\<lambda>t. role_of (command_line t) = Some ''agent'')
             (add_collection_tasks (launch cfg hp r))) = nat (batch_pool_size cfg - 1) \<and>
   length (add_collection_tasks (launch cfg hp r)) = 1 + nat (batch_pool_size cfg - 1) \<and>
   (1 \<le> batch_pool_size cfg \<longrightarrow>
      int (length (filter (\<lambda>t. role_of (command_line t) = Some ''agent'')
             (add_collection_tasks (launch cfg hp r)))) = batch_pool_size cfg - 1)"
  by (simp add: tasks_launch command_line_trainer_task command_line_agent_task
        role_of_trainer role_of_agent filter_map comp_def length_range0)

theorem one_trainer_and_pool_size_minus_one_agents_witness:
  "1 \<le> batch_pool_size example_config \<and>
   int (length (filter (\<lambda>t. role_of (command_line t) = Some ''agent'')
          (add_collection_tasks (launch example_config notebook_hyperparameters 0)))) = 2"
  using one_trainer_and_pool_size_minus_one_agents [of example_config notebook_hyperparameters 0]
  by (simp add: example_config_def)



text \<open>
  C10: all agent tasks of a job carry the same command line, the one computed once
  from the hyperparameters and the job id, and the same user identity and
  multi-instance settings: two agent tasks differ in nothing but their task id and
  display name.
\<close>

theorem agent_tasks_differ_only_in_names:
  "\<forall>a \<in> set (filter (\<lambda>t. role_of (command_line t) = Some ''agent'')
               (add_collection_tasks (launch cfg hp r))).
   \<forall>b \<in> set (filter (\<lambda>t. role_of (command_line t) = Some ''agent'')
               (add_collection_tasks (launch cfg hp r))).
     command_line a = agent_cmd_line hp (job_id r) \<and>
     command_line a = command_line b \<and>
     a\<lparr> task_id := task_id b, display_name := display_name b \<rparr> = b"
proof (intro ballI)
  fix a b
  assume a: "a \<in> set (filter (\<lambda>t. role_of (command_line t) = Some ''agent'')
               (add_collection_tasks (launch cfg hp r)))"
    and b: "b \<in> set (filter (\<lambda>t. role_of (command_line t) = Some ''agent'')
               (add_collection_tasks (launch cfg hp r)))"
  have agent: "\<exists>i. t = agent_task cfg (agent_cmd_line hp (job_id r)) i"
    if "t \<in> set (filter (\<lambda>t. role_of (command_line t) = Some ''agent'')
               (add_collection_tasks (launch cfg hp r)))" for t
  proof -
    from that have mem: "t \<in> set (add_collection_tasks (launch cfg hp r))"
      and role: "role_of (command_line t) = Some ''agent''"
      by simp_all
    from mem show ?thesis
    proof (cases rule: task_cases)
      case trainer
      with role show ?thesis
        by (simp add: command_line_trainer_task role_of_trainer)
    next
      case (agent i)
      then show ?thesis by blast
    qed
  qed
  from agent [OF a] obtain i where i: "a = agent_task cfg (agent_cmd_line hp (job_id r)) i" ..
  from agent [OF b] obtain j where j: "b = agent_task cfg (agent_cmd_line hp (job_id r)) j" ..
  show "command_line a = agent_cmd_line hp (job_id r) \<and>
     command_line a = command_line b \<and>
     a\<lparr> task_id := task_id b, display_name := display_name b \<rparr> = b"
    by (simp add: i j agent_task_def)
qed

theorem agent_tasks_differ_only_in_names_witness:
  "agent_task example_config (agent_cmd_line notebook_hyperparameters (job_id 0)) 0
     \<in> set (filter (\<lambda>t. role_of (command_line t) = Some ''agent'')
          (add_collection_tasks (launch example_config notebook_hyperparameters 0))) \<and>
   agent_task example_config (agent_cmd_line notebook_hyperparameters (job_id 0)) 1
     \<in> set (filter (\<lambda>t. role_of (command_line t) = Some ''agent'')
          (add_collection_tasks (launch example_config notebook_hyperparameters 0))) \<and>
   task_id (agent_task example_config (agent_cmd_line notebook_hyperparameters (job_id 0)) 0)
     = ''AgentTask_0'' \<and>
   task_id (agent_task example_config (agent_cmd_line notebook_hyperparameters (job_id 0)) 1)
     = ''AgentTask_1'' \<and>
   command_line (agent_task example_config (agent_cmd_line notebook_hyperparameters (job_id 0)) 0)
     = command_line
         (agent_task example_config (agent_cmd_line notebook_hyperparameters (job_id 0)) 1)"
proof -
  let ?a = "agent_task example_config (agent_cmd_line notebook_hyperparameters (job_id 0)) 0"
  let ?b = "agent_task example_config (agent_cmd_line notebook_hyperparameters (job_id 0)) 1"
  let ?agents = "filter (\<lambda>t. role_of (command_line t) = Some ''agent'')
          (add_collection_tasks (launch example_config notebook_hyperparameters 0))"
  have a: "?a \<in> set ?agents" and b: "?b \<in> set ?agents"
    by (simp_all add: example_tasks command_line_agent_task role_of_agent)
  have ids: "task_id ?a = ''AgentTask_0''" "task_id ?b = ''AgentTask_1''"
    by (simp_all add: agent_task_def str_int_def digits.simps digit_char_def)
  from bspec [OF bspec [OF agent_tasks_differ_only_in_names a] b]
  have "command_line ?a = command_line ?b" by blast
  with a b ids show ?thesis by blast
qed

text \<open>
  C9 (as stated): the jobId of every launched job is a UUID. The job identifier of the
  launch whose random bytes are all zero is
  'distributed_rl_00000000-0000-4000-8000-000000000000': 51 characters, where the text
  of a UUID has 36, and not the text of a version-4 UUID.
\<close>

theorem job_id_is_a_uuid_counterexample:
  "job_param_id (job_add (launch example_config notebook_hyperparameters 0))
     = ''distributed_rl_00000000-0000-4000-8000-000000000000'' \<and>
   length (job_param_id (job_add (launch example_config notebook_hyperparameters 0))) = 51 \<and>
   \<not> is_uuid4_text (job_param_id (job_add (launch example_config notebook_hyperparameters 0)))"
  by code_simp

text \<open>
  C9 (amended): the job identifier of every launched job is not itself a UUID but the
  string 'distributed_rl_' followed by the text of the version-4 UUID made from the
  random bytes of the launch; it is the id of the job added to the Batch service, the
  job the tasks are added to, and the experiment name on the command line of every
  task; and two launches get the same identifier exactly when their random bytes agree
  outside the six bits that the version and the variant fix.
\<close>

theorem job_id_is_prefixed_uuid4_used_for_job_and_experiment:
  "job_param_id (job_add (launch cfg hp r)) = ''distributed_rl_'' @ str_uuid (uuid4 r) \<and>
   is_uuid4_text (str_uuid (uuid4 r)) \<and>
   \<not> is_uuid4_text (job_param_id (job_add (launch cfg hp r))) \<and>
   add_collection_job_id (launch cfg hp r) = job_param_id (job_add (launch cfg hp r)) \<and>
   (\<forall>t \<in> set (add_collection_tasks (launch cfg hp r)).
      sublist ('' experiment_name='' @ job_param_id (job_add (launch cfg hp r)) @ '' '')
        (command_line t)) \<and>
   (\<forall>cfg' hp' r'.
      job_param_id (job_add (launch cfg' hp' r')) = job_param_id (job_add (launch cfg hp r))
        \<longleftrightarrow> (\<forall>n. n \<notin> {62, 63, 76, 77, 78, 79} \<longrightarrow> bit r' n = bit r n))"
proof (intro conjI ballI allI)
  show "job_param_id (job_add (launch cfg hp r)) = ''distributed_rl_'' @ str_uuid (uuid4 r)"
    by (simp add: job_param_id_launch job_id_def)
  show "is_uuid4_text (str_uuid (uuid4 r))"
    by (rule uuid4_text)
  show "\<not> is_uuid4_text (job_param_id (job_add (launch cfg hp r)))"
    by (simp only: job_param_id_launch job_id_not_uuid4_text not_False_eq_True)
  show "add_collection_job_id (launch cfg hp r) = job_param_id (job_add (launch cfg hp r))"
    by (simp only: job_param_id_launch add_collection_job_id_launch)
  show "job_param_id (job_add (launch cfg' hp' r')) = job_param_id (job_add (launch cfg hp r))
        \<longleftrightarrow> (\<forall>n. n \<notin> {62, 63, 76, 77, 78, 79} \<longrightarrow> bit r' n = bit r n)"
    for cfg' :: notebook_config and hp' :: hyperparameters and r'
    by (simp only: job_param_id_launch job_id_eq_iff)
  fix t
  assume "t \<in> set (add_collection_tasks (launch cfg hp r))"
  then show "sublist ('' experiment_name='' @ job_param_id (job_add (launch cfg hp r)) @ '' '')
      (command_line t)"
  proof (cases rule: task_cases)
    case trainer
    then show ?thesis
      by (simp only: job_param_id_launch command_line_trainer_task experiment_name_arg_trainer)
  next
    case (agent i)
    then show ?thesis
      by (simp only: job_param_id_launch command_line_agent_task experiment_name_arg_agent)
  qed
qed

theorem job_id_is_prefixed_uuid4_used_for_job_and_experiment_witness:
  "job_param_id (job_add (launch example_config notebook_hyperparameters 0))
     = ''distributed_rl_00000000-0000-4000-8000-000000000000'' \<and>
   agent_task example_config (agent_cmd_line notebook_hyperparameters (job_id 0)) 0
     \<in> set (add_collection_tasks (launch example_config notebook_hyperparameters 0)) \<and>
   sublist '' experiment_name=distributed_rl_00000000-0000-4000-8000-000000000000 ''
     (agent_cmd_line notebook_hyperparameters (job_id 0)) \<and>
   (0::nat) \<notin> {62, 63, 76, 77, 78, 79} \<and>
   bit (1 :: 128 word) 0 \<noteq> bit (0 :: 128 word) 0 \<and>
   job_param_id (job_add (launch example_config notebook_hyperparameters 1))
     \<noteq> job_param_id (job_add (launch example_config notebook_hyperparameters 0)) \<and>
   job_param_id (job_add (launch example_config notebook_hyperparameters (push_bit 62 1)))
     = job_param_id (job_add (launch example_config notebook_hyperparameters 0))"
proof -
  let ?a = "agent_task example_config (agent_cmd_line notebook_hyperparameters (job_id 0)) 0"
  let ?id = "\<lambda>r. job_param_id (job_add (launch example_config notebook_hyperparameters r))"
  have u: "str_uuid (uuid4 0) = ''00000000-0000-4000-8000-000000000000''"
    by code_simp
  note inst = job_id_is_prefixed_uuid4_used_for_job_and_experiment
    [of example_config notebook_hyperparameters 0]
  from inst have j: "?id 0 = ''distributed_rl_00000000-0000-4000-8000-000000000000''"
    by (simp only: u) simp
  have a: "?a \<in> set (add_collection_tasks (launch example_config notebook_hyperparameters 0))"
    by (simp add: example_tasks)
  from inst a have "sublist ('' experiment_name='' @ ?id 0 @ '' '') (command_line ?a)"
    by blast
  then have s: "sublist '' experiment_name=distributed_rl_00000000-0000-4000-8000-000000000000 ''
      (agent_cmd_line notebook_hyperparameters (job_id 0))"
    by (simp only: j command_line_agent_task) simp
  from inst have fresh: "?id r' = ?id 0 \<longleftrightarrow>
      (\<forall>n. n \<notin> {62, 63, 76, 77, 78, 79} \<longrightarrow> bit r' n = bit (0 :: 128 word) n)" for r'
    by blast
  have out: "(0::nat) \<notin> {62, 63, 76, 77, 78, 79}"
    and bits: "bit (1 :: 128 word) 0 \<noteq> bit (0 :: 128 word) 0"
    by simp_all
  from out bits have "\<not> (\<forall>n. n \<notin> {62, 63, 76, 77, 78, 79} \<longrightarrow>
      bit (1 :: 128 word) n = bit (0 :: 128 word) n)"
    by blast
  then have differ: "?id 1 \<noteq> ?id 0"
    by (simp only: fresh not_False_eq_True)
  have "\<forall>n. n \<notin> {62, 63, 76, 77, 78, 79} \<longrightarrow>
      bit (push_bit 62 1 :: 128 word) n = bit (0 :: 128 word) n"
    by (simp only: bit_two_pow) auto
  then have same: "?id (push_bit 62 1) = ?id 0"
    by (simp only: fresh)
  from j a s out bits differ same show ?thesis
    by (intro conjI)
qed

section \<open>Properties of the coordination core\<close>

subsection \<open>Parameter Server Core\<close>

lemma push_fst: "fst (push cfg ap g s) = version (snapshot s) + 1"
  by (simp add: push_def Let_def)

lemma push_version: "version (snapshot (snd (push cfg ap g s))) = version (snapshot s) + 1"
  by (simp add: push_def Let_def persist_def)

lemma push_updateCount: "updateCount (snd (push cfg ap g s)) = updateCount s + 1"
  by (simp add: push_def Let_def persist_def)

lemma upt_Suc_Cons: "m \<le> n \<Longrightarrow> [m..<Suc n] = m # map Suc [m..<n]"
  by (metis le_imp_less_Suc map_Suc_upt upt_conv_Cons)

lemma snapshots_versions:
  "map version (snapshots cfg ap gs s) =
     map (\<lambda>k. version (snapshot s) + int k) [0..<Suc (length gs)]"
proof (induction gs arbitrary: s)
  case Nil
  show ?case by simp
next
  case (Cons g gs)
  have "[0..<Suc (Suc (length gs))] = 0 # map Suc [0..<Suc (length gs)]"
    by (rule upt_Suc_Cons) simp
  then show ?case
    by (simp add: Cons.IH push_version comp_def del: upt_Suc)
qed

lemma push_results_versions:
  "push_results cfg ap gs s =
     map (\<lambda>k. version (snapshot s) + int k) [1..<Suc (length gs)]"
proof (induction gs arbitrary: s)
  case Nil
  show ?case by simp
next
  case (Cons g gs)
  have "[1..<Suc (Suc (length gs))] = 1 # map Suc [1..<Suc (length gs)]"
    by (rule upt_Suc_Cons) simp
  then show ?case
    by (simp add: Cons.IH push_version push_fst comp_def del: upt_Suc)
qed

lemma length_snapshots: "length (snapshots cfg ap gs s) = Suc (length gs)"
  by (induction gs arbitrary: s) simp_all

lemma distinct_offsets: "distinct (map (\<lambda>k. (v::int) + int k) [m..<n])"
  by (simp add: distinct_map inj_on_def)

text \<open>
  C3: for every sequence of pushes applied to the Parameter Server Core, the k-th push
  returns the starting version plus k, each snapshot's version is its predecessor's
  plus one, and no two snapshots the server ever holds share a version.
\<close>

theorem versions_increase_by_one_and_are_unique:
  "push_results cfg ap gs s =
     map (\<lambda>k. version (snapshot s) + int k) [1..<Suc (length gs)] \<and>
   (\<forall>k < length gs.
      version (snapshots cfg ap gs s ! Suc k) = version (snapshots cfg ap gs s ! k) + 1) \<and>
   distinct (map version (snapshots cfg ap gs s))"
proof (intro conjI allI impI)
  show "push_results cfg ap gs s =
     map (\<lambda>k. version (snapshot s) + int k) [1..<Suc (length gs)]"
    by (rule push_results_versions)
next
  fix k
  assume k: "k < length gs"
  have nth: "version (snapshots cfg ap gs s ! j) = version (snapshot s) + int j"
    if "j < Suc (length gs)" for j
  proof -
    have "version (snapshots cfg ap gs s ! j) = map version (snapshots cfg ap gs s) ! j"
      using that by (simp add: length_snapshots)
    also have "\<dots> = version (snapshot s) + int j"
      using that by (simp add: snapshots_versions del: upt_Suc)
    finally show ?thesis .
  qed
  from k show "version (snapshots cfg ap gs s ! Suc k) = version (snapshots cfg ap gs s ! k) + 1"
    by (simp add: nth)
next
  show "distinct (map version (snapshots cfg ap gs s))"
    unfolding snapshots_versions by (rule distinct_offsets)
qed

theorem versions_increase_by_one_and_are_unique_witness:
  "(1::nat) < length [example_gradient 0, example_gradient 0, example_gradient 1] \<and>
   version (snapshots example_server_config add_gradient
              [example_gradient 0, example_gradient 0, example_gradient 1] example_server ! 2) =
   version (snapshots example_server_config add_gradient
              [example_gradient 0, example_gradient 0, example_gradient 1] example_server ! 1) + 1 \<and>
   push_results example_server_config add_gradient
     [example_gradient 0, example_gradient 0, example_gradient 1] example_server = [1, 2, 3]"
proof -
  let ?gs = "[example_gradient 0, example_gradient 0, example_gradient 1]"
  have len: "(1::nat) < length ?gs" by simp
  have v0: "version (snapshot example_server) = 0"
    by (simp add: example_server_def fresh_server_def)
  note inst = versions_increase_by_one_and_are_unique
    [of example_server_config add_gradient ?gs example_server]
  from inst have "push_results example_server_config add_gradient ?gs example_server =
      map (\<lambda>k. version (snapshot example_server) + int k) [1..<Suc (length ?gs)]"
    by (rule conjunct1)
  then have res: "push_results example_server_config add_gradient ?gs example_server = [1, 2, 3]"
    by (simp add: v0 upt_conv_Cons)
  from inst len
  have "version (snapshots example_server_config add_gradient ?gs example_server ! Suc 1) =
        version (snapshots example_server_config add_gradient ?gs example_server ! 1) + 1"
    by blast
  with len res show ?thesis by (simp add: numeral_2_eq_2)
qed

subsection \<open>Checkpoint cadence\<close>

lemma pushes_append:
  "pushes cfg ap (gs @ hs) s = pushes cfg ap hs (pushes cfg ap gs s)"
  by (induction gs arbitrary: s) simp_all

lemma pushes_snoc: "pushes cfg ap (gs @ [g]) s = snd (push cfg ap g (pushes cfg ap gs s))"
  by (simp add: pushes_append)

lemma upt_snoc_Suc: "m \<le> n \<Longrightarrow> [m..<Suc n] = [m..<n] @ [n]"
  by simp

lemma cadence_invariant:
  "updatesSinceCheckpoint (pushes cfg ap gs (fresh_server snap))
           = length gs mod checkpointFrequency cfg \<and>
   version (snapshot (pushes cfg ap gs (fresh_server snap)))
     = version snap + int (length gs) \<and>
   map (\<lambda>c. version (persisted_snapshot c))
       (persist_calls (pushes cfg ap gs (fresh_server snap)))
     = map (\<lambda>j. version snap + int (j * checkpointFrequency cfg))
         [1..<Suc (length gs div checkpointFrequency cfg)]"
proof (induction gs rule: rev_induct)
  case Nil
  show ?case by (simp add: fresh_server_def)
next
  case (snoc g gs)
  let ?F = "checkpointFrequency cfg"
  let ?n = "length gs"
  let ?s = "pushes cfg ap gs (fresh_server snap)"
  from snoc.IH have c: "updatesSinceCheckpoint ?s = ?n mod ?F"
    and v: "version (snapshot ?s) = version snap + int ?n"
    and p: "map (\<lambda>c. version (persisted_snapshot c)) (persist_calls ?s)
              = map (\<lambda>j. version snap + int (j * ?F)) [1..<Suc (?n div ?F)]"
    by simp_all
  show ?case
  proof (cases "Suc (?n mod ?F) = ?F")
    case True
    then have m: "Suc ?n mod ?F = 0" and d: "Suc ?n div ?F = Suc (?n div ?F)"
      by (simp_all add: mod_Suc div_Suc)
    from d m have "Suc (?n div ?F) * ?F = Suc ?n"
      by (metis add.right_neutral div_mult_mod_eq)
    then have "int (Suc (?n div ?F) * ?F) = int (Suc ?n)"
      by (rule arg_cong)
    then have eq: "(1 + int (?n div ?F)) * int ?F = int ?n + 1"
      by (simp add: algebra_simps)
    have "[1..<Suc (Suc (?n div ?F))] = [1..<Suc (?n div ?F)] @ [Suc (?n div ?F)]"
      by simp
    with True c v p m d eq show ?thesis
      by (simp add: pushes_snoc push_def Let_def persist_def del: upt_Suc mult_Suc)
  next
    case False
    then have m: "Suc ?n mod ?F = Suc (?n mod ?F)" and d: "Suc ?n div ?F = ?n div ?F"
      by (simp_all add: mod_Suc div_Suc)
    with False c v p show ?thesis
      by (simp add: pushes_snoc push_def Let_def persist_def del: upt_Suc)
  qed
qed

lemma persist_count:
  "length (persist_calls (pushes cfg ap gs (fresh_server snap)))
     = length gs div checkpointFrequency cfg"
proof -
  have "length (persist_calls (pushes cfg ap gs (fresh_server snap)))
          = length (map (\<lambda>c. version (persisted_snapshot c))
              (persist_calls (pushes cfg ap gs (fresh_server snap))))"
    by simp
  also have "\<dots> = length gs div checkpointFrequency cfg"
    by (simp add: cadence_invariant del: upt_Suc)
  finally show ?thesis .
qed

lemma div_step:
  fixes F k :: nat
  assumes "1 \<le> k"
  shows "k div F = (k - 1) div F + (if F dvd k then 1 else 0)"
proof -
  from assms obtain n where k: "k = Suc n" by (cases k) auto
  show ?thesis
    by (simp add: k div_Suc dvd_eq_mod_eq_0)
qed

text \<open>
  C7: with checkpoint frequency F, on a server that has applied no push since its last
  checkpoint, the k-th applied push invokes persist exactly once when k is a multiple
  of F and not at all otherwise; the snapshots persisted are those of versions
  start + F, start + 2F, ..., in this order, each once.
\<close>

theorem persist_exactly_at_multiples_of_frequency:
  shows "(\<forall>k. 1 \<le> k \<and> k \<le> length gs \<longrightarrow>
            length (persist_calls (pushes cfg ap (take k gs) (fresh_server snap))) =
            length (persist_calls (pushes cfg ap (take (k - 1) gs) (fresh_server snap))) +
              (if checkpointFrequency cfg dvd k then 1 else 0)) \<and>
         map (\<lambda>c. version (persisted_snapshot c))
             (persist_calls (pushes cfg ap gs (fresh_server snap)))
           = map (\<lambda>j. version snap + int (j * checkpointFrequency cfg))
               [1..<Suc (length gs div checkpointFrequency cfg)] \<and>
         updatesSinceCheckpoint (pushes cfg ap gs (fresh_server snap))
           = length gs mod checkpointFrequency cfg"
proof (intro conjI allI impI)
  fix k
  assume k: "1 \<le> k \<and> k \<le> length gs"
  then have "length (take k gs) = k" and "length (take (k - 1) gs) = k - 1"
    by auto
  then show "length (persist_calls (pushes cfg ap (take k gs) (fresh_server snap))) =
            length (persist_calls (pushes cfg ap (take (k - 1) gs) (fresh_server snap))) +
              (if checkpointFrequency cfg dvd k then 1 else 0)"
    using k div_step [of k "checkpointFrequency cfg"] by (simp only: persist_count)
qed (simp_all only: cadence_invariant)

theorem persist_exactly_at_multiples_of_frequency_witness:
  "(1::nat) \<le> 2 \<and> (2::nat) \<le> length [example_gradient 0, example_gradient 0,
      example_gradient 1, example_gradient 3, example_gradient 3] \<and>
   length (persist_calls (pushes example_server_config add_gradient
        (take 2 [example_gradient 0, example_gradient 0, example_gradient 1,
           example_gradient 3, example_gradient 3]) example_server)) =
   length (persist_calls (pushes example_server_config add_gradient
        (take 1 [example_gradient 0, example_gradient 0, example_gradient 1,
           example_gradient 3, example_gradient 3]) example_server)) + 1 \<and>
   map (\<lambda>c. version (persisted_snapshot c))
     (persist_calls (pushes example_server_config add_gradient
        [example_gradient 0, example_gradient 0, example_gradient 1, example_gradient 3,
         example_gradient 3] example_server)) = [2, 4] \<and>
   updatesSinceCheckpoint (pushes example_server_config add_gradient
        [example_gradient 0, example_gradient 0, example_gradient 1, example_gradient 3,
         example_gradient 3] example_server) = 1"
proof -
  let ?gs = "[example_gradient 0, example_gradient 0, example_gradient 1, example_gradient 3,
         example_gradient 3]"
  have F2: "checkpointFrequency example_server_config = 2"
    by (simp add: example_server_config_def)
  note inst = persist_exactly_at_multiples_of_frequency
    [of ?gs example_server_config add_gradient "\<lparr> version = 0, weights = 0 \<rparr>"]
  have k: "(1::nat) \<le> 2 \<and> (2::nat) \<le> length ?gs"
    by simp
  from inst k
  have "length (persist_calls (pushes example_server_config add_gradient (take 2 ?gs)
            (fresh_server \<lparr> version = 0, weights = 0 \<rparr>))) =
        length (persist_calls (pushes example_server_config add_gradient (take (2 - 1) ?gs)
            (fresh_server \<lparr> version = 0, weights = 0 \<rparr>))) +
          (if checkpointFrequency example_server_config dvd 2 then 1 else 0)"
    by blast
  moreover from inst
  have "map (\<lambda>c. version (persisted_snapshot c))
          (persist_calls (pushes example_server_config add_gradient ?gs
             (fresh_server \<lparr> version = 0, weights = 0 \<rparr>))) = [2, 4] \<and>
        updatesSinceCheckpoint (pushes example_server_config add_gradient ?gs
             (fresh_server \<lparr> version = 0, weights = 0 \<rparr>)) = 1"
    by (simp add: F2)
  ultimately show ?thesis
    using k by (simp add: F2 example_server_def)
qed

subsection \<open>Replay Memory\<close>

lemma capacity_memory_push: "capacity (memory_push t m) = capacity m"
  by (simp add: memory_push_def)

lemma capacity_memory_pushes: "capacity (memory_pushes ts m) = capacity m"
  by (induction ts arbitrary: m) (simp_all add: capacity_memory_push)







lemma mset_remove_nth:
  assumes "i < length xs"
  shows "mset xs = add_mset (xs ! i) (mset (take i xs @ drop (Suc i) xs))"
proof -
  from assms have "xs = take i xs @ xs ! i # drop (Suc i) xs"
    by (rule id_take_nth_drop)
  then have "mset xs = mset (take i xs @ xs ! i # drop (Suc i) xs)"
    by (rule arg_cong)
  then show ?thesis by simp
qed

lemma length_draw: "n \<le> length pool \<Longrightarrow> length (draw n rnd pool) = n"
proof (induction n arbitrary: rnd pool)
  case 0
  show ?case by simp
next
  case (Suc n)
  then have "pool \<noteq> []" by auto
  then have "rnd 0 mod length pool < length pool" by simp
  with Suc.prems have "n \<le> length (take (rnd 0 mod length pool) pool @
      drop (Suc (rnd 0 mod length pool)) pool)"
    by simp
  then show ?case by (simp add: Let_def Suc.IH)
qed

lemma mset_draw: "n \<le> length pool \<Longrightarrow> mset (draw n rnd pool) \<subseteq># mset pool"
proof (induction n arbitrary: rnd pool)
  case 0
  show ?case by simp
next
  case (Suc n)
  let ?i = "rnd 0 mod length pool"
  let ?rest = "take ?i pool @ drop (Suc ?i) pool"
  from Suc.prems have "pool \<noteq> []" by auto
  then have i: "?i < length pool" by simp
  with Suc.prems have "n \<le> length ?rest" by simp
  then have "mset (draw n (\<lambda>k. rnd (Suc k)) ?rest) \<subseteq># mset ?rest"
    by (rule Suc.IH)
  then have "add_mset (pool ! ?i) (mset (draw n (\<lambda>k. rnd (Suc k)) ?rest))
      \<subseteq># add_mset (pool ! ?i) (mset ?rest)"
    by simp
  then show ?case
    by (simp only: draw.simps Let_def mset.simps mset_remove_nth [OF i, symmetric])
qed

text \<open>
  C5: sample(n) fails with InsufficientDataError when the memory holds fewer than n
  transitions; otherwise it returns n transitions, each position of the buffer drawn at
  most once, and the memory it leaves is the memory it was given.
\<close>

theorem sample_fails_or_draws_without_replacement:
  "(length (transitions m) < n \<longrightarrow> sample n rnd m = Inl InsufficientDataError) \<and>
   (n \<le> length (transitions m) \<longrightarrow>
      (\<exists>ys. sample n rnd m = Inr (ys, m) \<and> length ys = n \<and>
            mset ys \<subseteq># mset (transitions m)))"
  by (simp add: sample_def length_draw mset_draw)

theorem sample_fails_or_draws_without_replacement_witness:
  "length (transitions \<lparr> capacity = 3, transitions = [''A'', ''B'', ''C''] \<rparr>) < 5 \<and>
   sample 5 (\<lambda>k. k) \<lparr> capacity = 3, transitions = [''A'', ''B'', ''C''] \<rparr>
     = Inl InsufficientDataError \<and>
   (2::nat) \<le> length (transitions \<lparr> capacity = 3, transitions = [''A'', ''B'', ''C''] \<rparr>) \<and>
   sample 2 (\<lambda>k. k) \<lparr> capacity = 3, transitions = [''A'', ''B'', ''C''] \<rparr>
     = Inr ([''A'', ''C''], \<lparr> capacity = 3, transitions = [''A'', ''B'', ''C''] \<rparr>)"
proof -
  let ?m = "\<lparr> capacity = 3, transitions = [''A'', ''B'', ''C''] \<rparr>"
  have small: "length (transitions ?m) < 5" and enough: "(2::nat) \<le> length (transitions ?m)"
    by simp_all
  from sample_fails_or_draws_without_replacement [of ?m 5 "\<lambda>k. k"] small
  have fail: "sample 5 (\<lambda>k. k) ?m = Inl InsufficientDataError"
    by blast
  from sample_fails_or_draws_without_replacement [of ?m 2 "\<lambda>k. k"] enough
  obtain ys where ys: "sample 2 (\<lambda>k. k) ?m = Inr (ys, ?m)" "length ys = 2"
    by blast
  have "draw 2 (\<lambda>k. k) [''A'', ''B'', ''C''] = [''A'', ''C'']"
    by (simp add: numeral_2_eq_2 Let_def)
  then have "sample 2 (\<lambda>k. k) ?m = Inr ([''A'', ''C''], ?m)"
    by (simp add: sample_def)
  with small enough fail ys show ?thesis by simp
qed

subsection \<open>Epsilon annealing\<close>

lemma anneal_closed_step:
  fixes red x minEpsilon initialEpsilon :: real
  assumes "0 \<le> red \<or> minEpsilon \<le> initialEpsilon - x"
  shows "max minEpsilon (max minEpsilon (initialEpsilon - x) - red)
           = max minEpsilon (initialEpsilon - (x + red))"
  using assms by (auto simp: max_def)

lemma epsilon_closed_form:
  assumes "minEpsilon \<le> initialEpsilon"
  shows "epsilon_after initialEpsilon minEpsilon red i
           = max minEpsilon (initialEpsilon - real i * red)"
proof (induction i)
  case 0
  from assms show ?case by simp
next
  case (Suc i)
  have "0 \<le> red \<or> minEpsilon \<le> initialEpsilon - real i * red"
  proof (cases "0 \<le> red")
    case True
    then show ?thesis ..
  next
    case False
    then have "real i * red \<le> 0"
      by (simp add: mult_nonneg_nonpos)
    with assms show ?thesis by simp
  qed
  then have "max minEpsilon (max minEpsilon (initialEpsilon - real i * red) - red)
          = max minEpsilon (initialEpsilon - (real i * red + red))"
    by (rule anneal_closed_step)
  then show ?case
    by (simp add: Suc.IH anneal_def algebra_simps)
qed

lemma epsilon_closed_form_after_first:
  assumes "0 \<le> red"
  shows "epsilon_after initialEpsilon minEpsilon red (Suc i)
           = max minEpsilon (initialEpsilon - real (Suc i) * red)"
proof (induction i)
  case 0
  show ?case by (simp add: anneal_def)
next
  case (Suc i)
  from assms
  have "max minEpsilon (max minEpsilon (initialEpsilon - real (Suc i) * red) - red)
          = max minEpsilon (initialEpsilon - (real (Suc i) * red + red))"
    by (intro anneal_closed_step disjI1)
  moreover have "epsilon_after initialEpsilon minEpsilon red (Suc (Suc i))
      = max minEpsilon (epsilon_after initialEpsilon minEpsilon red (Suc i) - red)"
    by (simp add: anneal_def)
  ultimately show ?case
    by (simp only: Suc.IH) (simp add: algebra_simps)
qed

lemma epsilon_closed_form_cases:
  assumes "minEpsilon \<le> initialEpsilon \<or> (0 \<le> red \<and> 1 \<le> i)"
  shows "epsilon_after initialEpsilon minEpsilon red i
           = max minEpsilon (initialEpsilon - real i * red)"
  using assms
proof
  assume "minEpsilon \<le> initialEpsilon"
  then show ?thesis by (rule epsilon_closed_form)
next
  assume a: "0 \<le> red \<and> 1 \<le> i"
  then obtain k where "i = Suc k" by (cases i) auto
  with a show ?thesis
    by (simp only: epsilon_closed_form_after_first)
qed

lemma epsilon_floor_after_first:
  "minEpsilon \<le> epsilon_after initialEpsilon minEpsilon red (Suc i)"
  by (simp add: anneal_def)

text \<open>
  C6 (as stated): for every agent and every i the epsilon after i iterations equals
  max(minEpsilon, initialEpsilon - i * reduction), is never below minEpsilon, and the
  sequence never increases. An agent that starts at 0 with minimum 1 is below the
  minimum, and off the closed form, before its first iteration; an agent with reduction
  -1 goes from 1 to 2 in its first iteration.
\<close>

theorem epsilon_schedule_for_every_agent_counterexample:
  "epsilon_after 0 1 0 0 < 1 \<and>
   epsilon_after 0 1 0 0 \<noteq> max 1 (0 - real (0::nat) * 0) \<and>
   epsilon_after 1 0 (- 1) 0 < epsilon_after 1 0 (- 1) 1"
  by (simp add: anneal_def)

text \<open>
  C6 (amended): the epsilon after i iterations equals
  max(minEpsilon, initialEpsilon - i * reduction) for an agent that starts at or above
  minEpsilon, and from the first iteration on also for one that starts below it when
  the reduction is not negative; it is never below minEpsilon for an agent that starts
  at or above it, and in any case from the first iteration on; with a reduction that is
  not negative the sequence never increases, from the start for an agent that starts at
  or above minEpsilon and from the first iteration on otherwise.
\<close>

theorem epsilon_schedule:
  "(minEpsilon \<le> initialEpsilon \<or> (0 \<le> red \<and> 1 \<le> i) \<longrightarrow>
      epsilon_after initialEpsilon minEpsilon red i
        = max minEpsilon (initialEpsilon - real i * red)) \<and>
   (minEpsilon \<le> initialEpsilon \<or> 1 \<le> i \<longrightarrow>
      minEpsilon \<le> epsilon_after initialEpsilon minEpsilon red i) \<and>
   (0 \<le> red \<and> (minEpsilon \<le> initialEpsilon \<or> 1 \<le> i) \<longrightarrow>
      (\<forall>j. i \<le> j \<longrightarrow>
         epsilon_after initialEpsilon minEpsilon red j
           \<le> epsilon_after initialEpsilon minEpsilon red i))"
proof (intro conjI impI allI)
  assume "minEpsilon \<le> initialEpsilon \<or> (0 \<le> red \<and> 1 \<le> i)"
  then show "epsilon_after initialEpsilon minEpsilon red i
        = max minEpsilon (initialEpsilon - real i * red)"
    by (rule epsilon_closed_form_cases)
next
  assume "minEpsilon \<le> initialEpsilon \<or> 1 \<le> i"
  then show "minEpsilon \<le> epsilon_after initialEpsilon minEpsilon red i"
  proof
    assume "minEpsilon \<le> initialEpsilon"
    then show ?thesis by (simp add: epsilon_closed_form)
  next
    assume "1 \<le> i"
    then obtain k where "i = Suc k" by (cases i) auto
    then show ?thesis by (simp only: epsilon_floor_after_first)
  qed
next
  fix j
  assume a: "0 \<le> red \<and> (minEpsilon \<le> initialEpsilon \<or> 1 \<le> i)" and ij: "i \<le> j"
  then have ci: "minEpsilon \<le> initialEpsilon \<or> (0 \<le> red \<and> 1 \<le> i)"
    and cj: "minEpsilon \<le> initialEpsilon \<or> (0 \<le> red \<and> 1 \<le> j)"
    by auto
  from a ij have "real i * red \<le> real j * red"
    by (simp add: mult_right_mono)
  then show "epsilon_after initialEpsilon minEpsilon red j
           \<le> epsilon_after initialEpsilon minEpsilon red i"
    by (simp add: epsilon_closed_form_cases [OF ci] epsilon_closed_form_cases [OF cj] max_def)
qed

theorem epsilon_schedule_witness:
  "(1 / 10 :: real) \<le> 1 \<and> (0::real) \<le> 3 / 1000 \<and> (1::nat) \<le> 100 \<and> (100::nat) \<le> 400 \<and>
   epsilon_after 1 (1 / 10) (3 / 1000) 100 = 7 / 10 \<and>
   epsilon_after 1 (1 / 10) (3 / 1000) 400 = 1 / 10 \<and>
   (1 / 10 :: real) \<le> epsilon_after 1 (1 / 10) (3 / 1000) 100 \<and>
   epsilon_after 1 (1 / 10) (3 / 1000) 400 \<le> epsilon_after 1 (1 / 10) (3 / 1000) 100"
proof -
  have h: "(1 / 10 :: real) \<le> 1" "(0::real) \<le> 3 / 1000" "(1::nat) \<le> 100" "(100::nat) \<le> 400"
    by simp_all
  note at100 = epsilon_schedule [of "1 / 10" 1 "3 / 1000" 100]
  note at400 = epsilon_schedule [of "1 / 10" 1 "3 / 1000" 400]
  from at100 h have a: "epsilon_after 1 (1 / 10) (3 / 1000) 100 = 7 / 10"
    by simp
  from at400 h have b: "epsilon_after 1 (1 / 10) (3 / 1000) 400 = 1 / 10"
    by simp
  from at100 h have c: "(1 / 10 :: real) \<le> epsilon_after 1 (1 / 10) (3 / 1000) 100"
    by blast
  from at100 h
  have d: "epsilon_after 1 (1 / 10) (3 / 1000) 400 \<le> epsilon_after 1 (1 / 10) (3 / 1000) 100"
    by blast
  from h a b c d show ?thesis by blast
qed

end
